theory Spec2Isabelle
  imports Complex_Main "HOL-Library.Sublist"
begin

section \<open>Python strings, values and exceptions\<close>

text \<open>
  The program is \<^verbatim>\<open>src/agent.py\<close>. A Python \<^verbatim>\<open>str\<close> is modelled as a
  \<^typ>\<open>string\<close> holding the UTF-8 bytes of the text, so the emoji markers of the source
  are the byte sequences below, and a character outside ASCII is the two to four bytes of
  its encoding. The text is taken to be well-formed UTF-8, as a decoded line of input is.
\<close>

definition robot :: string where
  "robot = [CHR 0xF0, CHR 0x9F, CHR 0xA4, CHR 0x96]"

definition magnifier :: string where
  "magnifier = [CHR 0xF0, CHR 0x9F, CHR 0x94, CHR 0x8E]"

definition brain :: string where
  "brain = [CHR 0xF0, CHR 0x9F, CHR 0xA7, CHR 0xA0]"

definition check_mark :: string where
  "check_mark = [CHR 0xE2, CHR 0x9C, CHR 0x85]"

definition waving_hand :: string where
  "waving_hand = [CHR 0xF0, CHR 0x9F, CHR 0x91, CHR 0x8B]"

definition cross_mark :: string where
  "cross_mark = [CHR 0xE2, CHR 0x9D, CHR 0x8C]"

definition warning_marker :: string where
  "warning_marker = [CHR 0xE2, CHR 0x9A, CHR 0xA0, CHR 0xEF, CHR 0xB8, CHR 0x8F]"

definition en_dash :: string where
  "en_dash = [CHR 0xE2, CHR 0x80, CHR 0x93]"

text \<open>
  What a statement can raise. \<open>Exception cls msg\<close> stands for any instance of Python's
  class \<^verbatim>\<open>Exception\<close>: \<open>cls\<close> is the name of its class and \<open>msg\<close> is
  \<^verbatim>\<open>str(e)\<close>. \<open>KeyboardInterrupt\<close> and \<open>SystemExit\<close> derive from
  \<^verbatim>\<open>BaseException\<close> only, so \<^verbatim>\<open>except Exception\<close> does not catch them.
\<close>

datatype exn = Exception string string | KeyboardInterrupt | SystemExit

datatype 'a outcome = Returns 'a | Raises exn

text \<open>The values a field of the search response can hold, and \<^verbatim>\<open>str(v)\<close> as an
  f-string applies it.\<close>

datatype pyval = PNone | PStr string

fun py_str :: "pyval \<Rightarrow> string" where
  "py_str PNone = ''None''"
| "py_str (PStr s) = s"

text \<open>\<^verbatim>\<open>not x\<close> for an \<^verbatim>\<open>Optional[str]\<close>: \<^verbatim>\<open>None\<close> and the empty
  string are falsy.\<close>

fun truthy :: "string option \<Rightarrow> bool" where
  "truthy None = False"
| "truthy (Some s) = (s \<noteq> [])"

text \<open>\<^verbatim>\<open>str(n)\<close> for a non-negative integer.\<close>

definition digit :: "nat \<Rightarrow> char" where
  "digit d = ''0123456789'' ! (d mod 10)"

fun str_nat :: "nat \<Rightarrow> string" where
  "str_nat n = (if n < 10 then [digit n] else str_nat (n div 10) @ [digit n])"

declare str_nat.simps [simp del]

text \<open>\<^verbatim>\<open>repr(k)\<close> of a key without quotes or escapes: what
  \<^verbatim>\<open>str(KeyError(k))\<close> shows.\<close>

definition py_repr :: "string \<Rightarrow> string" where
  "py_repr k = [CHR 0x27] @ k @ [CHR 0x27]"

text \<open>\<^verbatim>\<open>sep.join(xs)\<close>.\<close>

fun py_join :: "string \<Rightarrow> string list \<Rightarrow> string" where
  "py_join sep [] = []"
| "py_join sep [x] = x"
| "py_join sep (x # y # ys) = x @ sep @ py_join sep (y # ys)"

text \<open>
  The characters of which \<^verbatim>\<open>str.isspace\<close> is true, each as its UTF-8 encoding: the ten
  ASCII ones (tab, line feed, vertical tab, form feed, carriage return, the separators
  \<^verbatim>\<open>\x1c\<close> to \<^verbatim>\<open>\x1f\<close>, space) and U+0085, U+00A0, U+1680, U+2000 to U+200A,
  U+2028, U+2029, U+202F, U+205F and U+3000.
\<close>

definition whitespace :: "string list" where
  "whitespace =
     [[CHR 0x09], [CHR 0x0A], [CHR 0x0B], [CHR 0x0C], [CHR 0x0D],
      [CHR 0x1C], [CHR 0x1D], [CHR 0x1E], [CHR 0x1F], [CHR 0x20],
      [CHR 0xC2, CHR 0x85], [CHR 0xC2, CHR 0xA0],
      [CHR 0xE1, CHR 0x9A, CHR 0x80],
      [CHR 0xE2, CHR 0x80, CHR 0x80], [CHR 0xE2, CHR 0x80, CHR 0x81],
      [CHR 0xE2, CHR 0x80, CHR 0x82], [CHR 0xE2, CHR 0x80, CHR 0x83],
      [CHR 0xE2, CHR 0x80, CHR 0x84], [CHR 0xE2, CHR 0x80, CHR 0x85],
      [CHR 0xE2, CHR 0x80, CHR 0x86], [CHR 0xE2, CHR 0x80, CHR 0x87],
      [CHR 0xE2, CHR 0x80, CHR 0x88], [CHR 0xE2, CHR 0x80, CHR 0x89],
      [CHR 0xE2, CHR 0x80, CHR 0x8A],
      [CHR 0xE2, CHR 0x80, CHR 0xA8], [CHR 0xE2, CHR 0x80, CHR 0xA9],
      [CHR 0xE2, CHR 0x80, CHR 0xAF],
      [CHR 0xE2, CHR 0x81, CHR 0x9F],
      [CHR 0xE3, CHR 0x80, CHR 0x80]]"

text \<open>Dropping from the front of \<open>s\<close>, one after the other, every leading occurrence of
  one of the byte sequences \<open>ws\<close>.\<close>

function strip_front :: "string list \<Rightarrow> string \<Rightarrow> string" where
  "strip_front ws s =
     (case find (\<lambda>w. w \<noteq> [] \<and> prefix w s) ws of
        None \<Rightarrow> s
      | Some w \<Rightarrow> strip_front ws (drop (length w) s))"
  by pat_completeness auto
termination
  by (relation "measure (\<lambda>(ws, s). length s)") (auto simp: find_Some_iff prefix_def)

declare strip_front.simps [simp del]

text \<open>\<^verbatim>\<open>str.strip()\<close>: the whitespace characters are removed from the front, then from
  the back (the reversed encodings from the front of the reversed text; in well-formed
  UTF-8 the text ends with an encoding only where it ends with that character).\<close>

definition py_strip :: "string \<Rightarrow> string" where
  "py_strip s = rev (strip_front (map rev whitespace) (rev (strip_front whitespace s)))"

text \<open>
  \<^verbatim>\<open>str.lower()\<close> on the letters A to Z. Outside ASCII, where Python lower-cases too, the
  bytes are kept: the program only compares the result with \<^verbatim>\<open>exit\<close> and \<^verbatim>\<open>quit\<close>,
  and a text with a character outside ASCII lower-cases to neither (its lower case keeps a
  character outside ASCII, or has the letter k for the Kelvin sign).
\<close>

definition lower_char :: "char \<Rightarrow> char" where
  "lower_char c =
     (case map_of (zip ''ABCDEFGHIJKLMNOPQRSTUVWXYZ'' ''abcdefghijklmnopqrstuvwxyz'') c of
        None \<Rightarrow> c
      | Some l \<Rightarrow> l)"

definition py_lower :: "string \<Rightarrow> string" where
  "py_lower s = map lower_char s"

section \<open>Web search tool\<close>

text \<open>
  The dictionary that \<^verbatim>\<open>tav.search\<close> returns: \<open>results\<close> and \<open>answer\<close> are
  \<open>None\<close> when the key is absent from the dictionary; an item of the result list is a
  dictionary from field names to values.
\<close>

type_synonym item = "string \<rightharpoonup> pyval"

record response =
  results :: "item list option"
  answer :: "pyval option"

record search_request =
  query :: string
  include_answers :: bool
  max_results :: nat
  search_depth :: string

text \<open>The search service, outside the program: \<^verbatim>\<open>TavilyClient(api_key=k).search(...)\<close>
  as a function of the key and the request, which returns a response or raises.\<close>

type_synonym tavily_api = "string \<Rightarrow> search_request \<Rightarrow> response outcome"

text \<open>\<^verbatim>\<open>d[k]\<close>: a missing key raises \<^verbatim>\<open>KeyError(k)\<close>.\<close>

definition getitem :: "item \<Rightarrow> string \<Rightarrow> pyval outcome" where
  "getitem d k = (case d k of
                    None \<Rightarrow> Raises (Exception ''KeyError'' (py_repr k))
                  | Some v \<Rightarrow> Returns v)"

text \<open>The list comprehension over \<^verbatim>\<open>enumerate(...)\<close>, from index \<open>i\<close>: the title is
  read before the URL, item by item, and the first missing field raises.\<close>

fun format_links :: "nat \<Rightarrow> item list \<Rightarrow> string list outcome" where
  "format_links i [] = Returns []"
| "format_links i (it # rest) =
     (case getitem it ''title'' of
        Raises e \<Rightarrow> Raises e
      | Returns t \<Rightarrow>
          (case getitem it ''url'' of
             Raises e \<Rightarrow> Raises e
           | Returns u \<Rightarrow>
               (case format_links (i + 1) rest of
                  Raises e \<Rightarrow> Raises e
                | Returns ls \<Rightarrow>
                    Returns ((str_nat (i + 1) @ ''. '' @ py_str t @ ''\<newline>   '' @ py_str u) # ls))))"

text \<open>The body of the \<^verbatim>\<open>try\<close> block of \<^verbatim>\<open>SearchTool._run\<close>.\<close>

definition run_body :: "string option \<Rightarrow> tavily_api \<Rightarrow> string \<Rightarrow> string outcome" where
  "run_body TAVILY_API_KEY tav q =
     (if \<not> truthy TAVILY_API_KEY
      then Raises (Exception ''ValueError'' ''Tavily API key not found'')
      else
        (case tav (the TAVILY_API_KEY)
                \<lparr>query = q, include_answers = True, max_results = 5,
                 search_depth = ''advanced''\<rparr> of
           Raises e \<Rightarrow> Raises e
         | Returns result \<Rightarrow>
             (case results result of
                None \<Rightarrow> Raises (Exception ''KeyError'' (py_repr ''results''))
              | Some rs \<Rightarrow>
                  (case format_links 0 (take 3 rs) of
                     Raises e \<Rightarrow> Raises e
                   | Returns links \<Rightarrow>
                       (let ans = (case answer result of
                                     None \<Rightarrow> PStr ''I found these resources:''
                                   | Some v \<Rightarrow> v)
                        in Returns (py_str ans @ ''\<newline>\<newline>Top Links:\<newline>''
                                    @ py_join ''\<newline>\<newline>'' links))))))"

text \<open>\<^verbatim>\<open>SearchTool._run\<close>: the \<^verbatim>\<open>except Exception\<close> clause turns an instance of
  \<^verbatim>\<open>Exception\<close> into the returned string; anything else leaves the function as it is.\<close>

definition SearchTool_run :: "string option \<Rightarrow> tavily_api \<Rightarrow> string \<Rightarrow> string outcome" where
  "SearchTool_run TAVILY_API_KEY tav q =
     (case run_body TAVILY_API_KEY tav q of
        Raises (Exception cls msg) \<Rightarrow>
          Returns (warning_marker @ '' Search failed. Error: '' @ msg)
      | r \<Rightarrow> r)"

section \<open>Model handle and crew\<close>

record ChatOpenAI =
  model :: string
  api_key :: string
  base_url :: string
  temperature :: real
  max_tokens :: nat

text \<open>The constructor of the library class \<^verbatim>\<open>ChatOpenAI\<close>, outside the program: given
  its arguments it raises (\<open>Some e\<close>, as it does for an empty key) or builds the handle
  that holds them (\<open>None\<close>).\<close>

type_synonym chat_init = "ChatOpenAI \<Rightarrow> exn option"

definition set_llm :: "chat_init \<Rightarrow> string option \<Rightarrow> ChatOpenAI outcome" where
  "set_llm init GROQ_API_KEY =
     (if \<not> truthy GROQ_API_KEY
      then Raises (Exception ''ValueError'' ''Groq API key not found in environment variables'')
      else
        (let groq_api_key = py_strip (the GROQ_API_KEY);
             handle = \<lparr>model = ''groq/llama3-70b-8192'',
                       api_key = groq_api_key,
                       base_url = ''https://api.groq.com/openai/v1'',
                       temperature = 0.5,
                       max_tokens = 1024\<rparr>
         in case init handle of
              Some e \<Rightarrow> Raises e
            | None \<Rightarrow> Returns handle))"

record agent =
  role :: string
  goal :: string
  backstory :: string
  tools :: "(string \<Rightarrow> string outcome) list"
  llm :: ChatOpenAI
  agent_verbose :: bool
  max_iter :: nat

record task =
  description :: string
  expected_output :: string
  task_agent :: agent
  output_file :: string

record crew =
  agents :: "agent list"
  tasks :: "task list"
  crew_verbose :: bool
  process :: string

text \<open>The two module-level globals, read from the environment when the module loads.\<close>

record globals =
  TAVILY_API_KEY :: "string option"
  GROQ_API_KEY :: "string option"

definition form_crew :: "globals \<Rightarrow> chat_init \<Rightarrow> tavily_api \<Rightarrow> string \<Rightarrow> crew outcome" where
  "form_crew g init tav q =
     (case set_llm init (GROQ_API_KEY g) of
        Raises e \<Rightarrow> Raises e
      | Returns l \<Rightarrow>
          (let researcher =
                 \<lparr>role = ''AI Research Specialist'',
                  goal = ''Deliver precise and informative answers with credible sources'',
                  backstory = ''You're an elite researcher who uses advanced tools to find and ''
                              @ ''synthesize information from verified web sources.'',
                  tools = [SearchTool_run (TAVILY_API_KEY g) tav],
                  llm = l,
                  agent_verbose = True,
                  max_iter = 3\<rparr>;
               t = \<lparr>description =
                      ''Research the topic: '' @ [CHR 0x27] @ q @ [CHR 0x27] @ ''\<newline>''
                      @ ''Instructions:\<newline>''
                      @ ''- Only use verified, recent information\<newline>''
                      @ ''- Present a clear and concise summary\<newline>''
                      @ ''- Highlight key aspects\<newline>''
                      @ ''- Provide 3'' @ en_dash @ ''5 relevant sources with titles and URLs'',
                    expected_output =
                      ''1. Overview of the topic\<newline>''
                      @ ''2. Key findings\<newline>''
                      @ ''3. Summary with evidence\<newline>''
                      @ ''4. 3'' @ en_dash @ ''5 Reference links with titles'',
                    task_agent = researcher,
                    output_file = ''research_output.md''\<rparr>
           in Returns \<lparr>agents = [researcher], tasks = [t], crew_verbose = True,
                        process = ''sequential''\<rparr>))"

section \<open>Interactive runner\<close>

text \<open>
  One pass through the body of \<^verbatim>\<open>while True\<close> meets the outside world four times:
  \<^verbatim>\<open>input\<close> returns a line or raises, \<^verbatim>\<open>ChatOpenAI(...)\<close> accepts its arguments or
  raises, the crew's tool reaches the search service, and \<^verbatim>\<open>crew.kickoff()\<close> returns a
  result or raises. A \<open>turn\<close> fixes what the world does in one pass; the loop is run
  against a list of turns.
\<close>

record turn =
  typed :: "string outcome"
  chat :: chat_init
  tavily :: tavily_api
  kickoff :: "crew \<Rightarrow> string outcome"

text \<open>What the runner does, in order: lines printed, the prompt shown by
  \<^verbatim>\<open>input\<close>, and the calls into the orchestrator.\<close>

datatype event = Print string | Prompt string | Call_form_crew string | Call_kickoff

datatype step = Continue | Break | Propagate exn

text \<open>The two \<^verbatim>\<open>except\<close> clauses of the loop, in the order of the source.\<close>

fun handler :: "event list \<Rightarrow> exn \<Rightarrow> event list \<times> step" where
  "handler evs KeyboardInterrupt = (evs @ [Print (''\<newline>'' @ waving_hand @ '' Exiting...'')], Break)"
| "handler evs (Exception cls msg) =
     (evs @ [Print (''\<newline>'' @ cross_mark @ '' Error: '' @ msg)], Continue)"
| "handler evs SystemExit = (evs, Propagate SystemExit)"

definition iteration :: "globals \<Rightarrow> turn \<Rightarrow> event list \<times> step" where
  "iteration g t =
     (let asked = [Prompt (magnifier @ '' What would you like to research? '')] in
      case typed t of
        Raises e \<Rightarrow> handler asked e
      | Returns q \<Rightarrow>
          if py_lower (py_strip q) \<in> set [''exit'', ''quit''] then (asked, Break)
          else
            (let started = asked @ [Print (''\<newline>'' @ brain @ '' Researching... please wait...\<newline>''),
                                    Call_form_crew q] in
             case form_crew g (chat t) (tavily t) q of
               Raises e \<Rightarrow> handler started e
             | Returns c \<Rightarrow>
                 (case kickoff t c of
                    Raises e \<Rightarrow> handler (started @ [Call_kickoff]) e
                  | Returns result \<Rightarrow>
                      (started @ [Call_kickoff,
                                  Print (''\<newline>'' @ check_mark @ '' Research Result:\<newline>''),
                                  Print result], Continue))))"

text \<open>How a run of the loop against finitely many turns ends: the loop has left by
  \<^verbatim>\<open>break\<close>, an exception has left \<^verbatim>\<open>main\<close>, or the loop is back at the prompt.\<close>

datatype status = Stopped | Uncaught exn | Awaiting

fun main_loop :: "globals \<Rightarrow> turn list \<Rightarrow> event list \<times> status" where
  "main_loop g [] = ([], Awaiting)"
| "main_loop g (t # ts) =
     (case iteration g t of
        (evs, Continue) \<Rightarrow> (case main_loop g ts of (evs', st) \<Rightarrow> (evs @ evs', st))
      | (evs, Break) \<Rightarrow> (evs, Stopped)
      | (evs, Propagate e) \<Rightarrow> (evs, Uncaught e))"

definition main :: "globals \<Rightarrow> turn list \<Rightarrow> event list \<times> status" where
  "main g ts =
     (case main_loop g ts of
        (evs, st) \<Rightarrow>
          (Print (robot @ '' AI Research Assistant (Ctrl+C or 'exit' to stop)\<newline>'') # evs, st))"

text \<open>The module as a script: the globals are read from the environment, then the guard
  under \<^verbatim>\<open>if __name__ == "__main__"\<close> runs. The second component is \<open>None\<close> when
  \<^verbatim>\<open>main\<close> is never called.\<close>

definition load_globals :: "(string \<rightharpoonup> string) \<Rightarrow> globals" where
  "load_globals env =
     \<lparr>TAVILY_API_KEY = env ''TAVILY_API_KEY'', GROQ_API_KEY = env ''GROQ_API_KEY''\<rparr>"

definition script :: "(string \<rightharpoonup> string) \<Rightarrow> turn list \<Rightarrow> event list \<times> status option" where
  "script env ts =
     (if \<not> truthy (env ''GROQ_API_KEY'')
      then ([Print (cross_mark @ '' Error: GROQ_API_KEY not found in .env file'')], None)
      else if \<not> truthy (env ''TAVILY_API_KEY'')
      then ([Print (cross_mark @ '' Error: TAVILY_API_KEY not found in .env file'')], None)
      else (case main (load_globals env) ts of (evs, st) \<Rightarrow> (evs, Some st)))"

section \<open>Sample worlds\<close>

text \<open>Concrete responses, services and turns at which the theorems below are evaluated.\<close>

definition link_item :: "string \<Rightarrow> string \<Rightarrow> item" where
  "link_item t u = [''title'' \<mapsto> PStr t, ''url'' \<mapsto> PStr u]"

definition four_links :: "item list" where
  "four_links = [link_item ''ITER'' ''https://iter.org'',
                 link_item ''NIF'' ''https://lasers.llnl.gov'',
                 link_item ''JET'' ''https://euro-fusion.org'',
                 link_item ''SPARC'' ''https://cfs.energy'']"

definition answering_tav :: tavily_api where
  "answering_tav k r = Returns \<lparr>results = Some four_links, answer = Some (PStr ''Fusion is advancing.'')\<rparr>"

definition null_answer_tav :: tavily_api where
  "null_answer_tav k r = Returns \<lparr>results = Some (take 3 four_links), answer = Some PNone\<rparr>"

definition unreachable_tav :: tavily_api where
  "unreachable_tav k r = Raises (Exception ''ConnectionError'' ''network unreachable'')"

definition malformed_tav :: tavily_api where
  "malformed_tav k r = Returns \<lparr>results = None, answer = None\<rparr>"

definition untitled_tav :: tavily_api where
  "untitled_tav k r = Returns \<lparr>results = Some [[''url'' \<mapsto> PStr ''https://iter.org'']], answer = None\<rparr>"

definition both_keys :: globals where
  "both_keys = \<lparr>TAVILY_API_KEY = Some ''tvly-1'', GROQ_API_KEY = Some ''gsk-1''\<rparr>"

definition groq_key_only :: globals where
  "groq_key_only = \<lparr>TAVILY_API_KEY = None, GROQ_API_KEY = Some ''gsk-1''\<rparr>"

definition tavily_key_only :: globals where
  "tavily_key_only = \<lparr>TAVILY_API_KEY = Some ''tvly-1'', GROQ_API_KEY = None\<rparr>"

text \<open>Three behaviours of \<^verbatim>\<open>crew.kickoff()\<close>: it returns a report, it returns what the
  first tool of the first agent says about fusion, or it is interrupted.\<close>

definition reporting :: "crew \<Rightarrow> string outcome" where
  "reporting c = Returns ''report''"

definition relaying :: "crew \<Rightarrow> string outcome" where
  "relaying c = (case agents c of
                   [] \<Rightarrow> Returns []
                 | a # _ \<Rightarrow> (case tools a of [] \<Rightarrow> Returns [] | f # _ \<Rightarrow> f ''fusion''))"


text \<open>A constructor that accepts every key but the empty one.\<close>

definition needs_key :: chat_init where
  "needs_key h = (if api_key h = [] then Some (Exception ''OpenAIError'' ''api_key must be set'')
                  else None)"

definition line_turn :: "string \<Rightarrow> (crew \<Rightarrow> string outcome) \<Rightarrow> turn" where
  "line_turn l k = \<lparr>typed = Returns l, chat = needs_key, tavily = answering_tav, kickoff = k\<rparr>"


text \<open>Three whitespace characters outside ASCII: U+00A0, U+2003 and U+3000.\<close>

definition nbsp :: string where
  "nbsp = [CHR 0xC2, CHR 0xA0]"

definition em_space :: string where
  "em_space = [CHR 0xE2, CHR 0x80, CHR 0x83]"

definition ideographic_space :: string where
  "ideographic_space = [CHR 0xE3, CHR 0x80, CHR 0x80]"

definition env_of :: "string option \<Rightarrow> string option \<Rightarrow> (string \<rightharpoonup> string)" where
  "env_of groq tav = (\<lambda>name. if name = ''GROQ_API_KEY'' then groq
                             else if name = ''TAVILY_API_KEY'' then tav else None)"

section \<open>Shared lemmas\<close>

lemma str_nat_small:
  "str_nat (Suc 0) = ''1''" "str_nat (Suc (Suc 0)) = ''2''" "str_nat (Suc (Suc (Suc 0))) = ''3''"
  by (simp_all add: str_nat.simps digit_def)

lemma run_body_missing_key:
  "\<not> truthy key \<Longrightarrow>
   run_body key tav q = Raises (Exception ''ValueError'' ''Tavily API key not found'')"
  by (simp add: run_body_def)

lemma SearchTool_run_catches:
  "run_body key tav q = Raises (Exception cls msg) \<Longrightarrow>
   SearchTool_run key tav q = Returns (warning_marker @ '' Search failed. Error: '' @ msg)"
  by (simp add: SearchTool_run_def)

lemma SearchTool_run_missing_key:
  "\<not> truthy key \<Longrightarrow>
   SearchTool_run key tav q =
   Returns (warning_marker @ '' Search failed. Error: Tavily API key not found'')"
  using SearchTool_run_catches [OF run_body_missing_key] by simp

lemma SearchTool_run_no_Exception:
  "SearchTool_run key tav q \<noteq> Raises (Exception cls msg)"
  by (simp add: SearchTool_run_def split: outcome.splits exn.splits)

lemma format_links_three:
  assumes "i1 ''title'' = Some t1" "i1 ''url'' = Some u1"
      and "i2 ''title'' = Some t2" "i2 ''url'' = Some u2"
      and "i3 ''title'' = Some t3" "i3 ''url'' = Some u3"
  shows "format_links 0 [i1, i2, i3] =
         Returns [''1. '' @ py_str t1 @ ''\<newline>   '' @ py_str u1,
                  ''2. '' @ py_str t2 @ ''\<newline>   '' @ py_str u2,
                  ''3. '' @ py_str t3 @ ''\<newline>   '' @ py_str u3]"
  using assms by (simp add: getitem_def str_nat_small)

lemma answer_before_heading:
  assumes "truthy key"
      and "tav (the key) \<lparr>query = q, include_answers = True, max_results = 5,
                           search_depth = ''advanced''\<rparr> = Returns r"
      and "results r = Some rs"
      and "format_links 0 (take 3 rs) = Returns links"
  shows "answer r = None \<Longrightarrow>
         SearchTool_run key tav q =
           Returns (''I found these resources:'' @ ''\<newline>\<newline>Top Links:\<newline>''
                    @ py_join ''\<newline>\<newline>'' links)"
    and "answer r = Some (PStr a) \<Longrightarrow>
         SearchTool_run key tav q =
           Returns (a @ ''\<newline>\<newline>Top Links:\<newline>'' @ py_join ''\<newline>\<newline>'' links)"
  using assms by (simp_all add: SearchTool_run_def run_body_def Let_def)

lemma form_crew_no_groq:
  "\<not> truthy (GROQ_API_KEY g) \<Longrightarrow>
   form_crew g init tav q =
     Raises (Exception ''ValueError'' ''Groq API key not found in environment variables'')"
  by (simp add: form_crew_def set_llm_def)

lemma main_loop_Continue:
  "iteration g t = (evs, Continue) \<Longrightarrow>
   main_loop g (t # ts) = (evs @ fst (main_loop g ts), snd (main_loop g ts))"
  by (simp split: prod.splits)

lemma main_loop_Break:
  "iteration g t = (evs, Break) \<Longrightarrow> main_loop g (t # ts) = (evs, Stopped)"
  by simp

lemma iteration_keyword:
  "typed t = Returns q \<Longrightarrow> py_lower (py_strip q) \<in> set [''exit'', ''quit''] \<Longrightarrow>
   iteration g t = ([Prompt (magnifier @ '' What would you like to research? '')], Break)"
  by (simp add: iteration_def)

lemma iteration_no_groq:
  "typed t = Returns q \<Longrightarrow> py_lower (py_strip q) \<notin> set [''exit'', ''quit''] \<Longrightarrow>
   \<not> truthy (GROQ_API_KEY g) \<Longrightarrow>
   iteration g t =
     ([Prompt (magnifier @ '' What would you like to research? ''),
       Print (''\<newline>'' @ brain @ '' Researching... please wait...\<newline>''),
       Call_form_crew q,
       Print (''\<newline>'' @ cross_mark @ '' Error: Groq API key not found in environment variables'')],
      Continue)"
  by (simp add: iteration_def form_crew_no_groq Let_def)



lemma py_strip_empty_not_keyword:
  "py_strip q = [] \<Longrightarrow> py_lower (py_strip q) \<notin> set [''exit'', ''quit'']"
  by (simp add: py_lower_def)

lemma handler_extends: "\<exists>evs' s. handler evs e = (evs @ evs', s)"
  by (cases e) simp_all

lemma iteration_passes_on:
  assumes "typed t = Returns q" and "py_lower (py_strip q) \<notin> set [''exit'', ''quit'']"
  shows "\<exists>evs s. iteration g t =
     ([Prompt (magnifier @ '' What would you like to research? ''),
       Print (''\<newline>'' @ brain @ '' Researching... please wait...\<newline>''),
       Call_form_crew q] @ evs, s)"
proof (cases "form_crew g (chat t) (tavily t) q")
  case (Raises e)
  with assms handler_extends [of "[Prompt (magnifier @ '' What would you like to research? ''),
       Print (''\<newline>'' @ brain @ '' Researching... please wait...\<newline>''),
       Call_form_crew q]" e]
  show ?thesis by (simp add: iteration_def Let_def)
next
  case (Returns c)
  show ?thesis
  proof (cases "kickoff t c")
    case (Raises e)
    with assms \<open>form_crew g (chat t) (tavily t) q = Returns c\<close>
      handler_extends [of "[Prompt (magnifier @ '' What would you like to research? ''),
       Print (''\<newline>'' @ brain @ '' Researching... please wait...\<newline>''),
       Call_form_crew q, Call_kickoff]" e]
    show ?thesis by (auto simp add: iteration_def Let_def)
  next
    case (Returns r)
    with assms \<open>form_crew g (chat t) (tavily t) q = Returns c\<close>
    show ?thesis by (simp add: iteration_def Let_def)
  qed
qed

lemma keyword_samples:
  "py_lower (py_strip ''exit'') = ''exit''" "py_lower (py_strip ''EXIT'') = ''exit''"
  "py_lower (py_strip ''quit'') = ''quit''" "py_lower (py_strip ''  Quit  '') = ''quit''"
  "py_lower (py_strip (nbsp @ ''exit'' @ nbsp)) = ''exit''"
  "py_lower (py_strip (''Exit'' @ ideographic_space)) = ''exit''"
  "py_lower (py_strip (em_space @ ''quit'')) = ''quit''"
  by (simp_all add: py_lower_def py_strip_def strip_front.simps whitespace_def lower_char_def
        nbsp_def em_space_def ideographic_space_def)

lemma blank_samples:
  "py_strip '''' = ''''" "py_strip ''   '' = ''''" "py_strip (em_space @ '' '' @ nbsp) = ''''"
  by (simp_all add: py_strip_def strip_front.simps whitespace_def nbsp_def em_space_def)

lemma plain_samples:
  "py_lower (py_strip ''fusion'') = ''fusion''" "py_lower (py_strip ''tokamak'') = ''tokamak''"
  "py_strip ''gsk-1'' = ''gsk-1''"
  by (simp_all add: py_lower_def py_strip_def strip_front.simps whitespace_def lower_char_def)

lemma iteration_completes:
  "typed t = Returns q \<Longrightarrow> py_lower (py_strip q) \<notin> set [''exit'', ''quit''] \<Longrightarrow>
   form_crew g (chat t) (tavily t) q = Returns c \<Longrightarrow> kickoff t c = Returns r \<Longrightarrow>
   iteration g t = ([Prompt (magnifier @ '' What would you like to research? ''),
                     Print (''\<newline>'' @ brain @ '' Researching... please wait...\<newline>''),
                     Call_form_crew q, Call_kickoff,
                     Print (''\<newline>'' @ check_mark @ '' Research Result:\<newline>''),
                     Print r], Continue)"
  by (simp add: iteration_def Let_def)

lemma iteration_form_crew_error:
  "typed t = Returns q \<Longrightarrow> py_lower (py_strip q) \<notin> set [''exit'', ''quit''] \<Longrightarrow>
   form_crew g (chat t) (tavily t) q = Raises (Exception cls msg) \<Longrightarrow>
   iteration g t = ([Prompt (magnifier @ '' What would you like to research? ''),
                     Print (''\<newline>'' @ brain @ '' Researching... please wait...\<newline>''),
                     Call_form_crew q,
                     Print (''\<newline>'' @ cross_mark @ '' Error: '' @ msg)], Continue)"
  by (simp add: iteration_def Let_def)

lemma iteration_kickoff_error:
  "typed t = Returns q \<Longrightarrow> py_lower (py_strip q) \<notin> set [''exit'', ''quit''] \<Longrightarrow>
   form_crew g (chat t) (tavily t) q = Returns c \<Longrightarrow>
   kickoff t c = Raises (Exception cls msg) \<Longrightarrow>
   iteration g t = ([Prompt (magnifier @ '' What would you like to research? ''),
                     Print (''\<newline>'' @ brain @ '' Researching... please wait...\<newline>''),
                     Call_form_crew q, Call_kickoff,
                     Print (''\<newline>'' @ cross_mark @ '' Error: '' @ msg)], Continue)"
  by (simp add: iteration_def Let_def)

lemma run_body_samples:
  "run_body None answering_tav ''fusion'' =
     Raises (Exception ''ValueError'' ''Tavily API key not found'')"
  "run_body (Some ''tvly-1'') unreachable_tav ''fusion'' =
     Raises (Exception ''ConnectionError'' ''network unreachable'')"
  "run_body (Some ''tvly-1'') malformed_tav ''fusion'' =
     Raises (Exception ''KeyError'' (py_repr ''results''))"
  "run_body (Some ''tvly-1'') untitled_tav ''fusion'' =
     Raises (Exception ''KeyError'' (py_repr ''title''))"
  by (simp_all add: run_body_def unreachable_tav_def malformed_tav_def untitled_tav_def
        getitem_def)

lemma form_crew_returns:
  "\<exists>c. form_crew both_keys needs_key tav q = Returns c"
  by (simp add: form_crew_def set_llm_def Let_def both_keys_def needs_key_def plain_samples)

lemma set_llm_missing_key:
  "\<not> truthy key \<Longrightarrow>
   set_llm init key =
     Raises (Exception ''ValueError'' ''Groq API key not found in environment variables'')"
  by (simp add: set_llm_def)

lemma script_aborts:
  "\<not> truthy (env ''GROQ_API_KEY'') \<Longrightarrow>
   script env ts = ([Print (cross_mark @ '' Error: GROQ_API_KEY not found in .env file'')], None)"
  "truthy (env ''GROQ_API_KEY'') \<Longrightarrow> \<not> truthy (env ''TAVILY_API_KEY'') \<Longrightarrow>
   script env ts = ([Print (cross_mark @ '' Error: TAVILY_API_KEY not found in .env file'')], None)"
  by (simp_all add: script_def)

lemma script_runs:
  "truthy (env ''GROQ_API_KEY'') \<Longrightarrow> truthy (env ''TAVILY_API_KEY'') \<Longrightarrow>
   script env ts = (fst (main (load_globals env) ts), Some (snd (main (load_globals env) ts)))"
  by (simp add: script_def split: prod.splits)

lemma env_of_simps:
  "env_of a b ''GROQ_API_KEY'' = a" "env_of a b ''TAVILY_API_KEY'' = b"
  by (simp_all add: env_of_def)

section \<open>The search tool\<close>

text \<open>
  C1. Whatever instance of \<^verbatim>\<open>Exception\<close> the body of \<^verbatim>\<open>SearchTool._run\<close> raises
  (the missing key, the search call failing, a response without \<^verbatim>\<open>results\<close>, an item
  without a field), \<^verbatim>\<open>_run\<close> returns a string that begins with the warning marker and
  contains \<^verbatim>\<open>str(e)\<close>; and \<^verbatim>\<open>_run\<close> never raises an instance of \<^verbatim>\<open>Exception\<close>.
\<close>

theorem search_failure_is_returned_as_warning:
  "(\<forall>cls msg. run_body key tav q = Raises (Exception cls msg) \<longrightarrow>
      (\<exists>s. SearchTool_run key tav q = Returns s \<and> prefix warning_marker s \<and> sublist msg s))
   \<and> (\<forall>cls msg. SearchTool_run key tav q \<noteq> Raises (Exception cls msg))"
proof (intro conjI allI impI)
  fix cls msg
  assume "run_body key tav q = Raises (Exception cls msg)"
  then have "SearchTool_run key tav q =
             Returns (warning_marker @ '' Search failed. Error: '' @ msg)"
    by (rule SearchTool_run_catches)
  moreover have "sublist msg (warning_marker @ '' Search failed. Error: '' @ msg)"
    by (metis append.assoc sublist_appendI append_Nil2)
  ultimately show "\<exists>s. SearchTool_run key tav q = Returns s \<and> prefix warning_marker s
                       \<and> sublist msg s"
    by simp
next
  fix cls msg
  show "SearchTool_run key tav q \<noteq> Raises (Exception cls msg)"
    by (rule SearchTool_run_no_Exception)
qed

theorem search_failure_is_returned_as_warning_witness:
  "(\<exists>s. SearchTool_run None answering_tav ''fusion'' = Returns s
        \<and> prefix warning_marker s \<and> sublist ''Tavily API key not found'' s)
   \<and> (\<exists>s. SearchTool_run (Some ''tvly-1'') unreachable_tav ''fusion'' = Returns s
        \<and> prefix warning_marker s \<and> sublist ''network unreachable'' s)
   \<and> (\<exists>s. SearchTool_run (Some ''tvly-1'') malformed_tav ''fusion'' = Returns s
        \<and> prefix warning_marker s \<and> sublist (py_repr ''results'') s)
   \<and> (\<exists>s. SearchTool_run (Some ''tvly-1'') untitled_tav ''fusion'' = Returns s
        \<and> prefix warning_marker s \<and> sublist (py_repr ''title'') s)"
  using search_failure_is_returned_as_warning [of None answering_tav "''fusion''"]
    search_failure_is_returned_as_warning [of "Some ''tvly-1''" unreachable_tav "''fusion''"]
    search_failure_is_returned_as_warning [of "Some ''tvly-1''" malformed_tav "''fusion''"]
    search_failure_is_returned_as_warning [of "Some ''tvly-1''" untitled_tav "''fusion''"]
    run_body_samples
  by simp

text \<open>
  C6. When the key is present, the search call returns, the result list has at least three
  items and the first three have a title and a URL, \<^verbatim>\<open>_run\<close> returns the answer text, the
  heading \<^verbatim>\<open>Top Links:\<close> and exactly three entries numbered 1, 2, 3, separated by blank
  lines; each entry is a title line (the number, a dot, a space and the title, so never
  empty) and a URL line (three spaces and the URL). Items after the third are ignored.
\<close>

theorem three_numbered_links:
  assumes key: "truthy key"
      and search: "tav (the key) \<lparr>query = q, include_answers = True, max_results = 5,
                                   search_depth = ''advanced''\<rparr> = Returns r"
      and three: "results r = Some (i1 # i2 # i3 # others)"
      and f1: "i1 ''title'' = Some t1" "i1 ''url'' = Some u1"
      and f2: "i2 ''title'' = Some t2" "i2 ''url'' = Some u2"
      and f3: "i3 ''title'' = Some t3" "i3 ''url'' = Some u3"
  shows "\<exists>a. SearchTool_run key tav q =
           Returns (a @ ''\<newline>\<newline>Top Links:\<newline>''
                    @ (''1. '' @ py_str t1) @ ''\<newline>'' @ (''   '' @ py_str u1) @ ''\<newline>\<newline>''
                    @ (''2. '' @ py_str t2) @ ''\<newline>'' @ (''   '' @ py_str u2) @ ''\<newline>\<newline>''
                    @ (''3. '' @ py_str t3) @ ''\<newline>'' @ (''   '' @ py_str u3))"
proof -
  have "format_links 0 (take 3 (i1 # i2 # i3 # others)) =
         Returns [''1. '' @ py_str t1 @ ''\<newline>   '' @ py_str u1,
                  ''2. '' @ py_str t2 @ ''\<newline>   '' @ py_str u2,
                  ''3. '' @ py_str t3 @ ''\<newline>   '' @ py_str u3]"
    using format_links_three [OF f1 f2 f3] by (simp add: numeral_3_eq_3)
  then show ?thesis
    using key search three by (simp add: SearchTool_run_def run_body_def Let_def)
qed

theorem three_numbered_links_witness:
  "\<exists>a. SearchTool_run (Some ''tvly-1'') answering_tav ''fusion'' =
     Returns (a @ ''\<newline>\<newline>Top Links:\<newline>''
              @ ''1. ITER\<newline>   https://iter.org\<newline>\<newline>''
              @ ''2. NIF\<newline>   https://lasers.llnl.gov\<newline>\<newline>''
              @ ''3. JET\<newline>   https://euro-fusion.org'')"
  using three_numbered_links [of "Some ''tvly-1''" answering_tav "''fusion''"
      "\<lparr>results = Some four_links, answer = Some (PStr ''Fusion is advancing.'')\<rparr>"
      "link_item ''ITER'' ''https://iter.org''"
      "link_item ''NIF'' ''https://lasers.llnl.gov''"
      "link_item ''JET'' ''https://euro-fusion.org''"
      "[link_item ''SPARC'' ''https://cfs.energy'']"
      "PStr ''ITER''" "PStr ''https://iter.org''"
      "PStr ''NIF''" "PStr ''https://lasers.llnl.gov''"
      "PStr ''JET''" "PStr ''https://euro-fusion.org''"]
  by (simp add: answering_tav_def four_links_def link_item_def)

text \<open>
  C7. The search service returns three links and \<^verbatim>\<open>'answer': None\<close>: the key is in the
  dictionary, so \<^verbatim>\<open>result.get('answer', ...)\<close> returns \<^verbatim>\<open>None\<close> and not the fallback
  phrase, and the text before the heading is \<^verbatim>\<open>None\<close>.
\<close>

theorem null_answer_is_printed_as_None:
  "SearchTool_run (Some ''tvly-1'') null_answer_tav ''fusion'' =
     Returns (''None'' @ ''\<newline>\<newline>Top Links:\<newline>''
              @ ''1. ITER\<newline>   https://iter.org\<newline>\<newline>''
              @ ''2. NIF\<newline>   https://lasers.llnl.gov\<newline>\<newline>''
              @ ''3. JET\<newline>   https://euro-fusion.org'')"
  by (simp add: SearchTool_run_def run_body_def null_answer_tav_def four_links_def
        link_item_def getitem_def str_nat_small Let_def numeral_3_eq_3)

section \<open>The interactive runner\<close>

text \<open>
  C8. A line whose stripped, lower-cased form is \<^verbatim>\<open>exit\<close> or \<^verbatim>\<open>quit\<close> ends the loop
  at once: after the prompt nothing is printed, neither \<^verbatim>\<open>form_crew\<close> nor
  \<^verbatim>\<open>kickoff\<close> is called, and later turns are not read.
\<close>

theorem exit_keyword_stops_loop:
  assumes "typed t = Returns q"
      and "py_lower (py_strip q) = ''exit'' \<or> py_lower (py_strip q) = ''quit''"
  shows "main_loop g (t # ts) = ([Prompt (magnifier @ '' What would you like to research? '')], Stopped)"
proof -
  from assms(2) have "py_lower (py_strip q) \<in> set [''exit'', ''quit'']" by auto
  from iteration_keyword [OF assms(1) this] show ?thesis by (rule main_loop_Break)
qed

theorem exit_keyword_stops_loop_witness:
  "main_loop both_keys (line_turn ''exit'' reporting # [line_turn ''fusion'' reporting]) =
     ([Prompt (magnifier @ '' What would you like to research? '')], Stopped)
   \<and> main_loop both_keys (line_turn ''EXIT'' reporting # []) =
     ([Prompt (magnifier @ '' What would you like to research? '')], Stopped)
   \<and> main_loop both_keys (line_turn ''quit'' reporting # []) =
     ([Prompt (magnifier @ '' What would you like to research? '')], Stopped)
   \<and> main_loop both_keys (line_turn ''  Quit  '' reporting # []) =
     ([Prompt (magnifier @ '' What would you like to research? '')], Stopped)
   \<and> main_loop both_keys (line_turn (nbsp @ ''exit'' @ nbsp) reporting # []) =
     ([Prompt (magnifier @ '' What would you like to research? '')], Stopped)
   \<and> main_loop both_keys (line_turn (''Exit'' @ ideographic_space) reporting # []) =
     ([Prompt (magnifier @ '' What would you like to research? '')], Stopped)
   \<and> main_loop both_keys (line_turn (em_space @ ''quit'') reporting # []) =
     ([Prompt (magnifier @ '' What would you like to research? '')], Stopped)"
  using exit_keyword_stops_loop [of "line_turn ''exit'' reporting" "''exit''" both_keys
      "[line_turn ''fusion'' reporting]"]
    exit_keyword_stops_loop [of "line_turn ''EXIT'' reporting" "''EXIT''" both_keys "[]"]
    exit_keyword_stops_loop [of "line_turn ''quit'' reporting" "''quit''" both_keys "[]"]
    exit_keyword_stops_loop [of "line_turn ''  Quit  '' reporting" "''  Quit  ''" both_keys "[]"]
    exit_keyword_stops_loop [of "line_turn (nbsp @ ''exit'' @ nbsp) reporting"
      "nbsp @ ''exit'' @ nbsp" both_keys "[]"]
    exit_keyword_stops_loop [of "line_turn (''Exit'' @ ideographic_space) reporting"
      "''Exit'' @ ideographic_space" both_keys "[]"]
    exit_keyword_stops_loop [of "line_turn (em_space @ ''quit'') reporting"
      "em_space @ ''quit''" both_keys "[]"]
    keyword_samples
  by (simp add: line_turn_def del: main_loop.simps)

text \<open>
  C3, as stated, fails: a line of three spaces is not an exit keyword, so the runner calls
  \<^verbatim>\<open>form_crew\<close> and \<^verbatim>\<open>kickoff\<close> with it, prints the result and is back at the prompt.
\<close>

theorem blank_line_invokes_orchestrator:
  "main_loop both_keys [line_turn ''   '' reporting] =
     ([Prompt (magnifier @ '' What would you like to research? ''),
       Print (''\<newline>'' @ brain @ '' Researching... please wait...\<newline>''),
       Call_form_crew ''   '', Call_kickoff,
       Print (''\<newline>'' @ check_mark @ '' Research Result:\<newline>''),
       Print ''report''], Awaiting)"
  by (simp add: iteration_def line_turn_def both_keys_def form_crew_def set_llm_def
        needs_key_def reporting_def Let_def blank_samples plain_samples py_lower_def)

text \<open>
  C3, amended. A blank line (empty once stripped of whitespace) does not end the loop and is
  handled like any other line that is not an exit keyword: the runner prints the progress
  message and calls \<^verbatim>\<open>form_crew\<close> with the line as it was typed; when \<^verbatim>\<open>form_crew\<close>
  and \<^verbatim>\<open>kickoff\<close> return, \<^verbatim>\<open>kickoff\<close> has been called, the result is printed and the
  loop goes on with the next turn; when either raises an \<^verbatim>\<open>Exception\<close>, the error line is
  printed and the loop goes on with the next turn.
\<close>

theorem blank_line_is_passed_on:
  assumes "typed t = Returns q" and "py_strip q = []"
  shows "(\<exists>evs st. main_loop g (t # ts) =
            ([Prompt (magnifier @ '' What would you like to research? ''),
              Print (''\<newline>'' @ brain @ '' Researching... please wait...\<newline>''),
              Call_form_crew q] @ evs, st))
       \<and> (\<forall>c r. form_crew g (chat t) (tavily t) q = Returns c \<and> kickoff t c = Returns r \<longrightarrow>
            main_loop g (t # ts) =
              ([Prompt (magnifier @ '' What would you like to research? ''),
                Print (''\<newline>'' @ brain @ '' Researching... please wait...\<newline>''),
                Call_form_crew q, Call_kickoff,
                Print (''\<newline>'' @ check_mark @ '' Research Result:\<newline>''),
                Print r] @ fst (main_loop g ts), snd (main_loop g ts)))
       \<and> (\<forall>cls msg. form_crew g (chat t) (tavily t) q = Raises (Exception cls msg) \<longrightarrow>
            main_loop g (t # ts) =
              ([Prompt (magnifier @ '' What would you like to research? ''),
                Print (''\<newline>'' @ brain @ '' Researching... please wait...\<newline>''),
                Call_form_crew q,
                Print (''\<newline>'' @ cross_mark @ '' Error: '' @ msg)] @ fst (main_loop g ts),
               snd (main_loop g ts)))
       \<and> (\<forall>c cls msg. form_crew g (chat t) (tavily t) q = Returns c
              \<and> kickoff t c = Raises (Exception cls msg) \<longrightarrow>
            main_loop g (t # ts) =
              ([Prompt (magnifier @ '' What would you like to research? ''),
                Print (''\<newline>'' @ brain @ '' Researching... please wait...\<newline>''),
                Call_form_crew q, Call_kickoff,
                Print (''\<newline>'' @ cross_mark @ '' Error: '' @ msg)] @ fst (main_loop g ts),
               snd (main_loop g ts)))"
proof -
  have nk: "py_lower (py_strip q) \<notin> set [''exit'', ''quit'']"
    using assms(2) by (rule py_strip_empty_not_keyword)
  have first: "\<exists>evs st. main_loop g (t # ts) =
            ([Prompt (magnifier @ '' What would you like to research? ''),
              Print (''\<newline>'' @ brain @ '' Researching... please wait...\<newline>''),
              Call_form_crew q] @ evs, st)"
  proof -
    from iteration_passes_on [OF assms(1) nk, of g]
    obtain evs s where it: "iteration g t =
       ([Prompt (magnifier @ '' What would you like to research? ''),
         Print (''\<newline>'' @ brain @ '' Researching... please wait...\<newline>''),
         Call_form_crew q] @ evs, s)" by blast
    show ?thesis
    proof (cases s)
      case Continue
      with it main_loop_Continue [of g t _ ts] show ?thesis by simp
    next
      case Break
      with it show ?thesis by simp
    next
      case (Propagate e)
      with it show ?thesis by simp
    qed
  qed
  have second: "main_loop g (t # ts) =
              ([Prompt (magnifier @ '' What would you like to research? ''),
                Print (''\<newline>'' @ brain @ '' Researching... please wait...\<newline>''),
                Call_form_crew q, Call_kickoff,
                Print (''\<newline>'' @ check_mark @ '' Research Result:\<newline>''),
                Print r] @ fst (main_loop g ts), snd (main_loop g ts))"
    if "form_crew g (chat t) (tavily t) q = Returns c" and "kickoff t c = Returns r" for c r
    using iteration_completes [OF assms(1) nk that] by (rule main_loop_Continue)
  have third: "main_loop g (t # ts) =
              ([Prompt (magnifier @ '' What would you like to research? ''),
                Print (''\<newline>'' @ brain @ '' Researching... please wait...\<newline>''),
                Call_form_crew q,
                Print (''\<newline>'' @ cross_mark @ '' Error: '' @ msg)] @ fst (main_loop g ts),
               snd (main_loop g ts))"
    if "form_crew g (chat t) (tavily t) q = Raises (Exception cls msg)" for cls msg
    using iteration_form_crew_error [OF assms(1) nk that] by (rule main_loop_Continue)
  have fourth: "main_loop g (t # ts) =
              ([Prompt (magnifier @ '' What would you like to research? ''),
                Print (''\<newline>'' @ brain @ '' Researching... please wait...\<newline>''),
                Call_form_crew q, Call_kickoff,
                Print (''\<newline>'' @ cross_mark @ '' Error: '' @ msg)] @ fst (main_loop g ts),
               snd (main_loop g ts))"
    if "form_crew g (chat t) (tavily t) q = Returns c"
      and "kickoff t c = Raises (Exception cls msg)" for c cls msg
    using iteration_kickoff_error [OF assms(1) nk that] by (rule main_loop_Continue)
  from first second third fourth show ?thesis by blast
qed

theorem blank_line_is_passed_on_witness:
  "main_loop both_keys
     (line_turn (em_space @ '' '' @ nbsp) reporting # [line_turn ''quit'' reporting]) =
     ([Prompt (magnifier @ '' What would you like to research? ''),
       Print (''\<newline>'' @ brain @ '' Researching... please wait...\<newline>''),
       Call_form_crew (em_space @ '' '' @ nbsp), Call_kickoff,
       Print (''\<newline>'' @ check_mark @ '' Research Result:\<newline>''),
       Print ''report'',
       Prompt (magnifier @ '' What would you like to research? '')], Stopped)"
proof -
  let ?q = "em_space @ '' '' @ nbsp"
  let ?t = "line_turn ?q reporting"
  let ?ts = "[line_turn ''quit'' reporting]"
  have ty: "typed ?t = Returns ?q" by (simp add: line_turn_def)
  have bl: "py_strip ?q = []" by (rule blank_samples(3))
  from form_crew_returns [of answering_tav ?q]
  obtain c where "form_crew both_keys needs_key answering_tav ?q = Returns c" by blast
  then have fc: "form_crew both_keys (chat ?t) (tavily ?t) ?q = Returns c"
    by (simp add: line_turn_def)
  have k: "kickoff ?t c = Returns ''report''" by (simp add: line_turn_def reporting_def)
  have next_turn: "main_loop both_keys ?ts =
     ([Prompt (magnifier @ '' What would you like to research? '')], Stopped)"
    using iteration_keyword [of "line_turn ''quit'' reporting" "''quit''" both_keys]
    by (simp add: line_turn_def keyword_samples)
  from blank_line_is_passed_on [OF ty bl, of both_keys ?ts] fc k
  have "main_loop both_keys (?t # ?ts) =
              ([Prompt (magnifier @ '' What would you like to research? ''),
                Print (''\<newline>'' @ brain @ '' Researching... please wait...\<newline>''),
                Call_form_crew ?q, Call_kickoff,
                Print (''\<newline>'' @ check_mark @ '' Research Result:\<newline>''),
                Print ''report''] @ fst (main_loop both_keys ?ts), snd (main_loop both_keys ?ts))"
    by blast
  with next_turn show ?thesis by simp
qed




section \<open>Missing credentials\<close>

text \<open>
  C2, as stated, fails for the search tool: with \<^verbatim>\<open>TAVILY_API_KEY\<close> absent and a crew
  that returns what its tool says, the \<^verbatim>\<open>ValueError\<close> of \<^verbatim>\<open>SearchTool._run\<close> is caught
  inside \<^verbatim>\<open>_run\<close>; the runner prints the warning text as the research result and no
  line with the error marker.
\<close>

theorem missing_search_key_stays_inside_the_tool:
  "main_loop groq_key_only [line_turn ''fusion'' relaying] =
     ([Prompt (magnifier @ '' What would you like to research? ''),
       Print (''\<newline>'' @ brain @ '' Researching... please wait...\<newline>''),
       Call_form_crew ''fusion'', Call_kickoff,
       Print (''\<newline>'' @ check_mark @ '' Research Result:\<newline>''),
       Print (warning_marker @ '' Search failed. Error: Tavily API key not found'')], Awaiting)"
  by (simp add: iteration_def line_turn_def groq_key_only_def form_crew_def set_llm_def
        needs_key_def relaying_def Let_def SearchTool_run_missing_key plain_samples)

text \<open>
  C2, amended. With \<^verbatim>\<open>GROQ_API_KEY\<close> absent, the \<^verbatim>\<open>ValueError\<close> of \<^verbatim>\<open>set_llm\<close>
  reaches the runner's generic handler, which prints its message after the error marker, and
  the loop goes on with the next turn. With \<^verbatim>\<open>TAVILY_API_KEY\<close> absent, the
  \<^verbatim>\<open>ValueError\<close> of \<^verbatim>\<open>SearchTool._run\<close> does not leave \<^verbatim>\<open>_run\<close>: the call returns
  the warning string.
\<close>

theorem missing_credential_paths:
  "(typed t = Returns q \<and> py_lower (py_strip q) \<notin> set [''exit'', ''quit'']
      \<and> \<not> truthy (GROQ_API_KEY g) \<longrightarrow>
    main_loop g (t # ts) =
      ([Prompt (magnifier @ '' What would you like to research? ''),
        Print (''\<newline>'' @ brain @ '' Researching... please wait...\<newline>''),
        Call_form_crew q,
        Print (''\<newline>'' @ cross_mark @ '' Error: Groq API key not found in environment variables'')]
       @ fst (main_loop g ts), snd (main_loop g ts)))
   \<and> (\<not> truthy key \<longrightarrow>
        SearchTool_run key tav q' =
          Returns (warning_marker @ '' Search failed. Error: Tavily API key not found''))"
proof (intro conjI impI)
  assume a: "typed t = Returns q \<and> py_lower (py_strip q) \<notin> set [''exit'', ''quit'']
      \<and> \<not> truthy (GROQ_API_KEY g)"
  then have "iteration g t =
     ([Prompt (magnifier @ '' What would you like to research? ''),
       Print (''\<newline>'' @ brain @ '' Researching... please wait...\<newline>''),
       Call_form_crew q,
       Print (''\<newline>'' @ cross_mark @ '' Error: Groq API key not found in environment variables'')],
      Continue)"
    by (simp add: iteration_no_groq)
  then show "main_loop g (t # ts) =
      ([Prompt (magnifier @ '' What would you like to research? ''),
        Print (''\<newline>'' @ brain @ '' Researching... please wait...\<newline>''),
        Call_form_crew q,
        Print (''\<newline>'' @ cross_mark @ '' Error: Groq API key not found in environment variables'')]
       @ fst (main_loop g ts), snd (main_loop g ts))"
    by (rule main_loop_Continue)
next
  assume "\<not> truthy key"
  then show "SearchTool_run key tav q' =
          Returns (warning_marker @ '' Search failed. Error: Tavily API key not found'')"
    by (rule SearchTool_run_missing_key)
qed

theorem missing_credential_paths_witness:
  "main_loop tavily_key_only (line_turn ''fusion'' reporting # []) =
      ([Prompt (magnifier @ '' What would you like to research? ''),
        Print (''\<newline>'' @ brain @ '' Researching... please wait...\<newline>''),
        Call_form_crew ''fusion'',
        Print (''\<newline>'' @ cross_mark @ '' Error: Groq API key not found in environment variables'')],
       Awaiting)
   \<and> SearchTool_run None answering_tav ''fusion'' =
          Returns (warning_marker @ '' Search failed. Error: Tavily API key not found'')"
  using missing_credential_paths [of "line_turn ''fusion'' reporting" "''fusion''" tavily_key_only
      "[]" None answering_tav "''fusion''"]
  by (simp add: line_turn_def tavily_key_only_def plain_samples)

text \<open>
  C4. \<^verbatim>\<open>main\<close> is called if and only if both \<^verbatim>\<open>GROQ_API_KEY\<close> and
  \<^verbatim>\<open>TAVILY_API_KEY\<close> are set and non-empty; then the script is the run of \<^verbatim>\<open>main\<close>.
  When either is missing the script prints one error line naming a missing variable and
  \<^verbatim>\<open>main\<close> is never called.
\<close>

theorem startup_guard:
  "((snd (script env ts) \<noteq> None) = (truthy (env ''GROQ_API_KEY'') \<and> truthy (env ''TAVILY_API_KEY'')))
   \<and> (truthy (env ''GROQ_API_KEY'') \<and> truthy (env ''TAVILY_API_KEY'') \<longrightarrow>
        script env ts = (fst (main (load_globals env) ts), Some (snd (main (load_globals env) ts))))
   \<and> (\<not> (truthy (env ''GROQ_API_KEY'') \<and> truthy (env ''TAVILY_API_KEY'')) \<longrightarrow>
        (\<exists>name. script env ts =
           ([Print (cross_mark @ '' Error: '' @ name @ '' not found in .env file'')], None)))"
proof (cases "truthy (env ''GROQ_API_KEY'')")
  case False
  from script_aborts(1) [of env ts] False show ?thesis
    by (auto intro: exI [of _ "''GROQ_API_KEY''"])
next
  case g: True
  show ?thesis
  proof (cases "truthy (env ''TAVILY_API_KEY'')")
    case False
    from script_aborts(2) [of env ts] g False show ?thesis
      by (auto intro: exI [of _ "''TAVILY_API_KEY''"])
  next
    case True
    from script_runs [of env ts] g True show ?thesis
      by simp
  qed
qed

theorem startup_guard_witness:
  "snd (script (env_of (Some ''gsk-1'') (Some ''tvly-1'')) []) \<noteq> None
   \<and> snd (script (env_of None (Some ''tvly-1'')) []) = None
   \<and> snd (script (env_of (Some ''gsk-1'') None) []) = None
   \<and> snd (script (env_of None None) []) = None
   \<and> (\<exists>name. script (env_of (Some ''gsk-1'') None) [] =
           ([Print (cross_mark @ '' Error: '' @ name @ '' not found in .env file'')], None))"
  using startup_guard [of "env_of (Some ''gsk-1'') (Some ''tvly-1'')" "[]"]
    startup_guard [of "env_of None (Some ''tvly-1'')" "[]"]
    startup_guard [of "env_of (Some ''gsk-1'') None" "[]"]
    startup_guard [of "env_of None None" "[]"]
  by (simp add: env_of_simps)

text \<open>
  C10. With both variables missing the script prints exactly one line, the one about
  \<^verbatim>\<open>GROQ_API_KEY\<close>, and nothing about \<^verbatim>\<open>TAVILY_API_KEY\<close>.
\<close>

theorem both_missing_reports_groq_only:
  assumes "\<not> truthy (env ''GROQ_API_KEY'')" and "\<not> truthy (env ''TAVILY_API_KEY'')"
  shows "script env ts = ([Print (cross_mark @ '' Error: GROQ_API_KEY not found in .env file'')], None)"
  using assms(1) by (rule script_aborts(1))

theorem both_missing_reports_groq_only_witness:
  "\<not> truthy (env_of None None ''GROQ_API_KEY'') \<and> \<not> truthy (env_of None None ''TAVILY_API_KEY'')
   \<and> script (env_of None None) [line_turn ''fusion'' reporting] =
       ([Print (cross_mark @ '' Error: GROQ_API_KEY not found in .env file'')], None)"
  using both_missing_reports_groq_only [of "env_of None None" "[line_turn ''fusion'' reporting]"]
  by (simp add: env_of_simps)

text \<open>
  C5, as stated, fails: \<^verbatim>\<open>SearchTool._run\<close> tests \<^verbatim>\<open>TAVILY_API_KEY\<close> on every call.
  Against a service that answers any request, the call returns the warning about the key
  when the key is absent and the formatted links when it is present.
\<close>

theorem search_tool_checks_key_on_each_call:
  "SearchTool_run None answering_tav ''fusion'' =
     Returns (warning_marker @ '' Search failed. Error: Tavily API key not found'')
   \<and> SearchTool_run (Some ''tvly-1'') answering_tav ''fusion'' =
     Returns (''Fusion is advancing.\<newline>\<newline>Top Links:\<newline>''
              @ ''1. ITER\<newline>   https://iter.org\<newline>\<newline>''
              @ ''2. NIF\<newline>   https://lasers.llnl.gov\<newline>\<newline>''
              @ ''3. JET\<newline>   https://euro-fusion.org'')"
  by (simp add: SearchTool_run_def run_body_def answering_tav_def four_links_def
        link_item_def getitem_def str_nat_small Let_def numeral_3_eq_3)

text \<open>
  C5, amended. A missing credential is detected at startup, before \<^verbatim>\<open>main\<close> is called;
  besides, both components test their own key on every invocation: \<^verbatim>\<open>SearchTool._run\<close>
  returns the warning string whatever the search service would do, and \<^verbatim>\<open>set_llm\<close>
  raises \<^verbatim>\<open>ValueError\<close>.
\<close>

theorem credential_checks:
  "(\<not> truthy (env ''GROQ_API_KEY'') \<or> \<not> truthy (env ''TAVILY_API_KEY'') \<longrightarrow>
       snd (script env ts) = None)
   \<and> (\<not> truthy tkey \<longrightarrow>
        SearchTool_run tkey tav q =
          Returns (warning_marker @ '' Search failed. Error: Tavily API key not found''))
   \<and> (\<not> truthy gkey \<longrightarrow>
        set_llm init gkey =
          Raises (Exception ''ValueError'' ''Groq API key not found in environment variables''))"
  using script_aborts [of env ts] SearchTool_run_missing_key [of tkey tav q]
    set_llm_missing_key [of gkey init]
  by (cases "truthy (env ''GROQ_API_KEY'')") auto

theorem credential_checks_witness:
  "snd (script (env_of (Some ''gsk-1'') None) [line_turn ''fusion'' reporting]) = None
   \<and> SearchTool_run (Some '''') answering_tav ''tokamak'' =
          Returns (warning_marker @ '' Search failed. Error: Tavily API key not found'')
   \<and> set_llm needs_key None =
          Raises (Exception ''ValueError'' ''Groq API key not found in environment variables'')"
  using credential_checks [of "env_of (Some ''gsk-1'') None" "[line_turn ''fusion'' reporting]" "Some ''''" answering_tav "''tokamak''" None needs_key]
  by (simp add: env_of_simps)

end
